theory Spec2Isabelle
  imports Complex_Main
begin

section \<open>JavaScript numbers\<close>

text \<open>
  Form fields hold JavaScript numbers produced by \<^verbatim>\<open>parseFloat\<close> and
  \<^verbatim>\<open>parseInt\<close>: a finite number or \<^verbatim>\<open>NaN\<close> (an empty or
  non-numeric field). A comparison with \<^verbatim>\<open>NaN\<close> is false.
\<close>

datatype jsNumber = NaN | Num rat

fun jsLessEq :: "jsNumber \<Rightarrow> jsNumber \<Rightarrow> bool" where
  "jsLessEq (Num a) (Num b) = (a \<le> b)"
| "jsLessEq _ _ = False"

text \<open>
  Payment amounts read back from the backend are integer Kyat values, each held in an
  IEEE-754 double. The sum of two integer-valued doubles is the exact integer sum
  rounded to the nearest double (53 significant bits, ties to the even significand).
  \<open>roundToDouble\<close> is that rounding on the integers; magnitudes stay far below the
  overflow threshold \<open>2 ^ 1024\<close>. Every integer below \<open>2 ^ 53 = 9007199254740992\<close>
  is a double.
\<close>

fun bitLength :: "nat \<Rightarrow> nat" where
  "bitLength n = (if n = 0 then 0 else Suc (bitLength (n div 2)))"

declare bitLength.simps [simp del]

definition roundNat :: "nat \<Rightarrow> nat" where
  "roundNat n =
     (if n < 9007199254740992 then n
      else
        (let e = bitLength n - 53;
             q = n div 2 ^ e;
             r = n mod 2 ^ e;
             half = 2 ^ (e - 1)
         in if r < half then q * 2 ^ e
            else if half < r then (q + 1) * 2 ^ e
            else if even q then q * 2 ^ e
            else (q + 1) * 2 ^ e))"

definition roundToDouble :: "int \<Rightarrow> int" where
  "roundToDouble i = (if i < 0 then - int (roundNat (nat (- i))) else int (roundNat (nat i)))"

definition jsAdd :: "int \<Rightarrow> int \<Rightarrow> int" where
  "jsAdd a b = roundToDouble (a + b)"

section \<open>Data model\<close>

text \<open>
  The records of \<^verbatim>\<open>../types\<close> as the pages read them. \<open>pay_date\<close> is the
  backend's date string; \<open>pay_amount\<close> is \<^verbatim>\<open>Number(p.amount)\<close>.
\<close>

record payment =
  pay_id :: int
  pay_member_id :: int
  pay_amount :: int
  pay_method :: string
  pay_date :: string
  pay_status :: string

record membership =
  ms_id :: int
  ms_member_id :: int
  ms_type :: string
  ms_duration :: int
  ms_fee :: int
  ms_start_date :: string
  ms_end_date :: string
  ms_status :: string

section \<open>Aggregates of the list views\<close>

text \<open>
  \<^verbatim>\<open>payments?.reduce((sum, p) => sum + Number(p.amount), 0) || 0\<close>
  (PaymentsManagement \<open>totalRevenue\<close>, MemberPayment \<open>totalPaid\<close>). The list is
  \<open>None\<close> while it has not been fetched; \<^verbatim>\<open>|| 0\<close> replaces a falsy result by 0.
\<close>

definition sumAmounts :: "payment list \<Rightarrow> int" where
  "sumAmounts ps = fold (\<lambda>p acc. jsAdd acc (pay_amount p)) ps 0"

definition totalRevenue :: "payment list option \<Rightarrow> int" where
  "totalRevenue payments =
     (case payments of
        None \<Rightarrow> 0
      | Some ps \<Rightarrow> (let s = sumAmounts ps in if s = 0 then 0 else s))"

definition totalPaid :: "payment list option \<Rightarrow> int" where
  "totalPaid payments =
     (case payments of
        None \<Rightarrow> 0
      | Some ps \<Rightarrow> (let s = sumAmounts ps in if s = 0 then 0 else s))"

section \<open>Plan catalogs\<close>

text \<open>
  \<open>membershipPlans\<close> of the member payment page and \<open>membershipTypes\<close> of the
  membership management page (the icon of each entry is presentational and left out).
\<close>

record plan =
  plan_name :: string
  plan_duration :: int
  plan_price :: int

record membershipType =
  type_label :: string
  type_duration :: int
  type_fee :: int

definition membershipPlans :: "plan list" where
  "membershipPlans =
     [\<lparr>plan_name = ''Monthly'', plan_duration = 30, plan_price = 50000\<rparr>,
      \<lparr>plan_name = ''Quarterly'', plan_duration = 90, plan_price = 135000\<rparr>,
      \<lparr>plan_name = ''Semi-Annual'', plan_duration = 180, plan_price = 255000\<rparr>,
      \<lparr>plan_name = ''Annual'', plan_duration = 365, plan_price = 480000\<rparr>]"

definition membershipTypes :: "membershipType list" where
  "membershipTypes =
     [\<lparr>type_label = ''Monthly'', type_duration = 30, type_fee = 50000\<rparr>,
      \<lparr>type_label = ''Quarterly (3 months)'', type_duration = 90, type_fee = 140000\<rparr>,
      \<lparr>type_label = ''Semi-Annual (6 months)'', type_duration = 180, type_fee = 275000\<rparr>,
      \<lparr>type_label = ''Annual'', type_duration = 365, type_fee = 550000\<rparr>]"

text \<open>The two catalogs read as label-to-fee tables.\<close>

definition memberFees :: "string \<rightharpoonup> int" where
  "memberFees = map_of (map (\<lambda>p. (plan_name p, plan_price p)) membershipPlans)"

definition adminFees :: "string \<rightharpoonup> int" where
  "adminFees = map_of (map (\<lambda>t. (type_label t, type_fee t)) membershipTypes)"

section \<open>Membership status\<close>

text \<open>
  \<^verbatim>\<open>memberships.filter(m => m.status === 'active').length\<close> (AdminDashboard
  \<open>activeMemberships\<close>) and the same count with \<^verbatim>\<open>?.\<close> and \<^verbatim>\<open>|| 0\<close>
  (MembershipsManagement \<open>activeCount\<close>).
\<close>

definition isActive :: "membership \<Rightarrow> bool" where
  "isActive m = (ms_status m = ''active'')"

definition activeMemberships :: "membership list \<Rightarrow> nat" where
  "activeMemberships memberships = length (filter isActive memberships)"

definition activeCount :: "membership list option \<Rightarrow> nat" where
  "activeCount memberships =
     (case memberships of None \<Rightarrow> 0 | Some ms \<Rightarrow> length (filter isActive ms))"

record membershipStatusResponse =
  has_active_membership :: bool
  active_membership :: "membership option"

text \<open>
  Modelled from the spec: the resolver behind \<^verbatim>\<open>membershipsApi.getStatus()\<close> runs
  on the backend and is not under src/ (the member page only reads its response). The
  spec selects the membership whose status is "active"; if there is none,
  \<open>has_active_membership\<close> is false and \<open>active_membership\<close> is null. Where several
  are active the spec leaves the choice open; \<open>find\<close> takes the first.
\<close>

definition resolveMembershipStatus :: "membership list \<Rightarrow> membershipStatusResponse" where
  "resolveMembershipStatus memberships =
     (case find isActive memberships of
        None \<Rightarrow> \<lparr>has_active_membership = False, active_membership = None\<rparr>
      | Some m \<Rightarrow> \<lparr>has_active_membership = True, active_membership = Some m\<rparr>)"

section \<open>Calendar dates\<close>

text \<open>
  Gregorian calendar dates, the successor and predecessor day, and adding a number of
  days one day at a time. \<open>dayNumber\<close> counts the days from 0001-01-01 in closed form.
\<close>

record date =
  d_year :: int
  d_month :: nat
  d_day :: nat

definition isLeapYear :: "int \<Rightarrow> bool" where
  "isLeapYear y = (y mod 4 = 0 \<and> (y mod 400 = 0 \<or> y mod 100 \<noteq> 0))"

definition daysInMonth :: "int \<Rightarrow> nat \<Rightarrow> nat" where
  "daysInMonth y m =
     (if m = 2 then (if isLeapYear y then 29 else 28)
      else if m = 4 \<or> m = 6 \<or> m = 9 \<or> m = 11 then 30
      else 31)"

definition validDate :: "date \<Rightarrow> bool" where
  "validDate d =
     (1 \<le> d_month d \<and> d_month d \<le> 12 \<and> 1 \<le> d_day d \<and>
      d_day d \<le> daysInMonth (d_year d) (d_month d))"

definition nextDay :: "date \<Rightarrow> date" where
  "nextDay d =
     (if d_day d < daysInMonth (d_year d) (d_month d) then d\<lparr>d_day := d_day d + 1\<rparr>
      else if d_month d < 12 then d\<lparr>d_month := d_month d + 1, d_day := 1\<rparr>
      else \<lparr>d_year = d_year d + 1, d_month = 1, d_day = 1\<rparr>)"

definition prevDay :: "date \<Rightarrow> date" where
  "prevDay d =
     (if 1 < d_day d then d\<lparr>d_day := d_day d - 1\<rparr>
      else if 1 < d_month d
      then d\<lparr>d_month := d_month d - 1, d_day := daysInMonth (d_year d) (d_month d - 1)\<rparr>
      else \<lparr>d_year = d_year d - 1, d_month = 12, d_day = 31\<rparr>)"

primrec addDays :: "date \<Rightarrow> nat \<Rightarrow> date" where
  "addDays d 0 = d"
| "addDays d (Suc n) = addDays (nextDay d) n"

definition daysBeforeYear :: "int \<Rightarrow> int" where
  "daysBeforeYear y = 365 * (y - 1) + (y - 1) div 4 - (y - 1) div 100 + (y - 1) div 400"

definition daysBeforeMonth :: "int \<Rightarrow> nat \<Rightarrow> int" where
  "daysBeforeMonth y m = (\<Sum>k \<leftarrow> [1..<m]. int (daysInMonth y k))"

definition dayNumber :: "date \<Rightarrow> int" where
  "dayNumber d = daysBeforeYear (d_year d) + daysBeforeMonth (d_year d) (d_month d) + int (d_day d)"

text \<open>
  Modelled from the spec: memberships are created by the backend, which is not under
  src/ (the creation form sends member, type, duration and fee only). The spec's
  invariant is \<open>end_date == start_date + duration days\<close> at creation, by day-count
  addition.
\<close>

definition membershipEndDate :: "date \<Rightarrow> nat \<Rightarrow> date" where
  "membershipEndDate start_date duration = addDays start_date duration"

section \<open>The "this month" filter\<close>

text \<open>
  A JavaScript \<^verbatim>\<open>Date\<close> is either invalid or a time value: a point in time, kept
  here as its UTC calendar date and minute of the day (0 to 1439). \<^verbatim>\<open>getMonth()\<close>
  and \<^verbatim>\<open>getFullYear()\<close> read the time value in the browser's local time zone:
  \<open>zone t\<close> is the zone's offset from UTC in minutes at the time \<open>t\<close>, between -720 and
  840, so the local date is the UTC date, the day before or the day after.
  \<^verbatim>\<open>getMonth()\<close> counts from 0. For an invalid date both are \<^verbatim>\<open>NaN\<close>
  (\<open>None\<close> here), and \<^verbatim>\<open>===\<close> on \<^verbatim>\<open>NaN\<close> is false.
\<close>

record timeValue =
  tv_date :: date
  tv_minute :: nat

datatype jsDate = InvalidDate | ValidDate timeValue

definition localDate :: "(timeValue \<Rightarrow> int) \<Rightarrow> timeValue \<Rightarrow> date" where
  "localDate zone t =
     (let m = int (tv_minute t) + zone t
      in if m < 0 then prevDay (tv_date t)
         else if 1440 \<le> m then nextDay (tv_date t)
         else tv_date t)"

fun getMonth :: "(timeValue \<Rightarrow> int) \<Rightarrow> jsDate \<Rightarrow> int option" where
  "getMonth zone InvalidDate = None"
| "getMonth zone (ValidDate t) = Some (int (d_month (localDate zone t)) - 1)"

fun getFullYear :: "(timeValue \<Rightarrow> int) \<Rightarrow> jsDate \<Rightarrow> int option" where
  "getFullYear zone InvalidDate = None"
| "getFullYear zone (ValidDate t) = Some (d_year (localDate zone t))"

fun strictEq :: "int option \<Rightarrow> int option \<Rightarrow> bool" where
  "strictEq (Some a) (Some b) = (a = b)"
| "strictEq _ _ = False"

text \<open>
  \<^verbatim>\<open>new Date(p.date)\<close> parses the backend's string. A date-only string
  \<^verbatim>\<open>YYYY-MM-DD\<close> naming a calendar date is the ECMAScript date-time format without
  a time, which is read as midnight UTC of that date. What any other string parses to
  (a date-time form, or an implementation's own formats) is the parameter
  \<open>parseOther\<close>, \<open>None\<close> for an unparseable string.
\<close>

definition digitValue :: "char \<Rightarrow> nat option" where
  "digitValue c =
     map_of [(CHR ''0'', 0), (CHR ''1'', 1), (CHR ''2'', 2), (CHR ''3'', 3), (CHR ''4'', 4),
             (CHR ''5'', 5), (CHR ''6'', 6), (CHR ''7'', 7), (CHR ''8'', 8), (CHR ''9'', 9)] c"

definition digitsValue :: "string \<Rightarrow> nat option" where
  "digitsValue cs =
     fold (\<lambda>c acc. case acc of
                      None \<Rightarrow> None
                    | Some a \<Rightarrow> (case digitValue c of None \<Rightarrow> None | Some v \<Rightarrow> Some (10 * a + v)))
          cs (Some 0)"

definition parseDateOnly :: "string \<Rightarrow> date option" where
  "parseDateOnly s =
     (if length s = 10 \<and> s ! 4 = CHR ''-'' \<and> s ! 7 = CHR ''-''
      then (case digitsValue (take 4 s) of
              None \<Rightarrow> None
            | Some y \<Rightarrow>
                (case digitsValue (take 2 (drop 5 s)) of
                   None \<Rightarrow> None
                 | Some m \<Rightarrow>
                     (case digitsValue (drop 8 s) of
                        None \<Rightarrow> None
                      | Some d \<Rightarrow>
                          (let parsed = \<lparr>d_year = int y, d_month = m, d_day = d\<rparr>
                           in if validDate parsed then Some parsed else None))))
      else None)"

definition newDate :: "(string \<Rightarrow> timeValue option) \<Rightarrow> string \<Rightarrow> jsDate" where
  "newDate parseOther s =
     (case parseDateOnly s of
        Some d \<Rightarrow> ValidDate \<lparr>tv_date = d, tv_minute = 0\<rparr>
      | None \<Rightarrow> (case parseOther s of Some t \<Rightarrow> ValidDate t | None \<Rightarrow> InvalidDate))"

text \<open>The filter's callback; \<open>now\<close> is the time value of \<^verbatim>\<open>new Date()\<close>.\<close>

definition inThisMonth ::
  "(string \<Rightarrow> timeValue option) \<Rightarrow> (timeValue \<Rightarrow> int) \<Rightarrow> timeValue \<Rightarrow> payment \<Rightarrow> bool" where
  "inThisMonth parseOther zone now p =
     (let date = newDate parseOther (pay_date p)
      in strictEq (getMonth zone date) (getMonth zone (ValidDate now)) \<and>
         strictEq (getFullYear zone date) (getFullYear zone (ValidDate now)))"

text \<open>MemberPayment \<open>thisMonthPayments\<close>, with its \<^verbatim>\<open>|| []\<close>.\<close>

definition thisMonthPayments ::
  "(string \<Rightarrow> timeValue option) \<Rightarrow> (timeValue \<Rightarrow> int) \<Rightarrow> timeValue \<Rightarrow>
   payment list option \<Rightarrow> payment list" where
  "thisMonthPayments parseOther zone now payments =
     (case payments of
        None \<Rightarrow> []
      | Some ps \<Rightarrow> filter (inThisMonth parseOther zone now) ps)"

text \<open>AdminDashboard \<open>thisMonthRevenue\<close>: the same filter, then the sum.\<close>

definition thisMonthRevenue ::
  "(string \<Rightarrow> timeValue option) \<Rightarrow> (timeValue \<Rightarrow> int) \<Rightarrow> timeValue \<Rightarrow> payment list \<Rightarrow> int" where
  "thisMonthRevenue parseOther zone now payments =
     fold (\<lambda>p acc. jsAdd acc (pay_amount p))
          (filter (inThisMonth parseOther zone now) payments) 0"

text \<open>
  The condition of the "this month" filter in the spec's words: the month and the year
  of one date equal those of the other.
\<close>

definition sameMonthAndYear :: "date \<Rightarrow> date \<Rightarrow> bool" where
  "sameMonthAndYear a b = (d_month a = d_month b \<and> d_year a = d_year b)"

section \<open>Status styles\<close>

text \<open>
  \<^verbatim>\<open>configs[status] || configs.completed\<close> reads a property of an object literal.
  The read finds an own property, or else a member the literal inherits from
  \<^verbatim>\<open>Object.prototype\<close> (a function or an object, so truthy), or else
  \<^verbatim>\<open>undefined\<close>; only \<^verbatim>\<open>undefined\<close> falls through \<^verbatim>\<open>||\<close>. The icon
  component is recorded by its name.
\<close>

record statusStyle =
  style_bg :: string
  style_text :: string
  style_icon :: string

datatype 'a jsProperty = Own 'a | Inherited string | Undefined

definition objectPrototypeKeys :: "string list" where
  "objectPrototypeKeys =
     [''constructor'', ''__defineGetter__'', ''__defineSetter__'', ''hasOwnProperty'',
      ''__lookupGetter__'', ''__lookupSetter__'', ''isPrototypeOf'',
      ''propertyIsEnumerable'', ''toString'', ''valueOf'', ''__proto__'',
      ''toLocaleString'']"

definition getProperty :: "(string \<times> 'a) list \<Rightarrow> string \<Rightarrow> 'a jsProperty" where
  "getProperty obj k =
     (case map_of obj k of
        Some v \<Rightarrow> Own v
      | None \<Rightarrow> if k \<in> set objectPrototypeKeys then Inherited k else Undefined)"

definition configs :: "(string \<times> statusStyle) list" where
  "configs =
     [(''completed'', \<lparr>style_bg = ''from-green-100 to-emerald-100'',
                       style_text = ''text-green-700'', style_icon = ''CheckCircle''\<rparr>),
      (''pending'', \<lparr>style_bg = ''from-yellow-100 to-amber-100'',
                     style_text = ''text-yellow-700'', style_icon = ''Clock''\<rparr>),
      (''failed'', \<lparr>style_bg = ''from-red-100 to-orange-100'',
                    style_text = ''text-red-700'', style_icon = ''XCircle''\<rparr>)]"

definition styles :: "(string \<times> statusStyle) list" where
  "styles =
     [(''active'', \<lparr>style_bg = ''from-green-100 to-emerald-100'',
                    style_text = ''text-green-700'', style_icon = ''CheckCircle''\<rparr>),
      (''expired'', \<lparr>style_bg = ''from-red-100 to-orange-100'',
                     style_text = ''text-red-700'', style_icon = ''XCircle''\<rparr>),
      (''cancelled'', \<lparr>style_bg = ''from-gray-100 to-gray-200'',
                       style_text = ''text-gray-700'', style_icon = ''XCircle''\<rparr>)]"

definition getStatusConfig :: "string \<Rightarrow> statusStyle jsProperty" where
  "getStatusConfig status =
     (case getProperty configs status of
        Undefined \<Rightarrow> getProperty configs ''completed''
      | found \<Rightarrow> found)"

definition getStatusBadge :: "string \<Rightarrow> statusStyle jsProperty" where
  "getStatusBadge status =
     (case getProperty styles status of
        Undefined \<Rightarrow> getProperty styles ''active''
      | found \<Rightarrow> found)"

section \<open>Forms and requests\<close>

text \<open>
  \<open>CreatePaymentData\<close> and \<open>CreateMembershipData\<close> as the forms fill them; the member
  page's form is \<^verbatim>\<open>Omit<CreatePaymentData, 'member_id'>\<close>.
\<close>

record createPaymentData =
  cp_member_id :: int
  cp_amount :: jsNumber
  cp_method :: string

record paymentForm =
  pf_amount :: jsNumber
  pf_method :: string

record createMembershipData =
  cm_member_id :: int
  cm_type :: string
  cm_duration :: jsNumber
  cm_fee :: jsNumber

text \<open>The calls that reach the backend, in the order they are issued.\<close>

datatype request =
  CreatePayment createPaymentData
| CreateMembership createMembershipData
| GetPayments
| GetMyPayments
| GetMembershipStatus
| GetMemberships

datatype toast = ShowSuccess string | ShowError string

text \<open>
  How the awaited mutation settles: it resolves, or it rejects with
  \<^verbatim>\<open>error.response?.data?.message\<close> (\<open>None\<close> when that is undefined).
  \<^verbatim>\<open>message || fallback\<close> takes the fallback for an undefined or empty message.
\<close>

datatype outcome = Resolved | Rejected "string option"

definition errorMessage :: "string option \<Rightarrow> string \<Rightarrow> string" where
  "errorMessage message fallback =
     (case message of None \<Rightarrow> fallback | Some m \<Rightarrow> if m = [] then fallback else m)"

subsection \<open>Constraint validation of the browser\<close>

text \<open>
  A submit button with \<^verbatim>\<open>disabled\<close> does not submit its form, and a form whose
  controls fail constraint validation does not fire \<^verbatim>\<open>onSubmit\<close>. A
  \<^verbatim>\<open>required\<close> select is missing its value only when the selected option's value
  is the empty string; React renders \<^verbatim>\<open>value={n}\<close> as the decimal string of \<open>n\<close>.
  A number input with \<^verbatim>\<open>min="0" step="1"\<close> accepts the non-negative integers, and
  an empty field (\<^verbatim>\<open>NaN\<close> in the form state) only when it is not required.
\<close>

definition digitChar :: "nat \<Rightarrow> char" where
  "digitChar n = ''0123456789'' ! n"

fun natToString :: "nat \<Rightarrow> string" where
  "natToString n =
     (if n < 10 then [digitChar n]
      else natToString (n div 10) @ [digitChar (n mod 10)])"

declare natToString.simps [simp del]

definition intToString :: "int \<Rightarrow> string" where
  "intToString i = (if i < 0 then CHR ''-'' # natToString (nat (- i)) else natToString (nat i))"

definition selectValueMissing :: "string \<Rightarrow> bool" where
  "selectValueMissing v = (v = [])"

definition numberInputValid :: "bool \<Rightarrow> jsNumber \<Rightarrow> bool" where
  "numberInputValid required a =
     (case a of NaN \<Rightarrow> \<not> required | Num r \<Rightarrow> 0 \<le> r \<and> of_int \<lfloor>r\<rfloor> = r)"

subsection \<open>PaymentsManagement\<close>

text \<open>
  The page's state: the fetched list (\<open>None\<close> before it arrives), the modal flag, the
  form, the mutation's loading flag, the toasts shown and the requests sent. The toast
  texts are the source's without their trailing emoji.
\<close>

record adminState =
  ad_payments :: "payment list option"
  ad_showCreateModal :: bool
  ad_formData :: createPaymentData
  ad_isCreating :: bool
  ad_toasts :: "toast list"
  ad_sent :: "request list"

definition initialAdminForm :: createPaymentData where
  "initialAdminForm = \<lparr>cp_member_id = 0, cp_amount = Num 0, cp_method = ''Credit Card''\<rparr>"

text \<open>
  \<open>handleSubmit\<close>: the request goes out with the form as it stands; \<open>fetched\<close> is what
  \<^verbatim>\<open>refetch()\<close> brings back after a success.
\<close>

definition PaymentsManagement_handleSubmit ::
  "outcome \<Rightarrow> payment list option \<Rightarrow> adminState \<Rightarrow> adminState" where
  "PaymentsManagement_handleSubmit res fetched st =
     (let st1 = st\<lparr>ad_sent := ad_sent st @ [CreatePayment (ad_formData st)]\<rparr>
      in case res of
           Resolved \<Rightarrow>
             st1\<lparr>ad_toasts := ad_toasts st1 @ [ShowSuccess ''Payment recorded successfully!''],
                 ad_showCreateModal := False,
                 ad_formData := initialAdminForm,
                 ad_sent := ad_sent st1 @ [GetPayments],
                 ad_payments := fetched\<rparr>
         | Rejected message \<Rightarrow>
             st1\<lparr>ad_toasts := ad_toasts st1 @
                   [ShowError (errorMessage message ''Failed to record payment'')]\<rparr>)"

text \<open>\<^verbatim>\<open>disabled={isCreating || formData.amount <= 0}\<close>\<close>

definition PaymentsManagement_submitDisabled :: "adminState \<Rightarrow> bool" where
  "PaymentsManagement_submitDisabled st =
     (ad_isCreating st \<or> jsLessEq (cp_amount (ad_formData st)) (Num 0))"

text \<open>The \<^verbatim>\<open>required\<close> member select and the \<^verbatim>\<open>required\<close> amount input.\<close>

definition PaymentsManagement_formValid :: "adminState \<Rightarrow> bool" where
  "PaymentsManagement_formValid st =
     (\<not> selectValueMissing (intToString (cp_member_id (ad_formData st))) \<and>
      numberInputValid True (cp_amount (ad_formData st)))"

text \<open>The user activates the submit button of the "Record Payment" form.\<close>

definition PaymentsManagement_submit ::
  "outcome \<Rightarrow> payment list option \<Rightarrow> adminState \<Rightarrow> adminState" where
  "PaymentsManagement_submit res fetched st =
     (if PaymentsManagement_submitDisabled st then st
      else if PaymentsManagement_formValid st then PaymentsManagement_handleSubmit res fetched st
      else st)"

subsection \<open>MemberPayment\<close>

record memberState =
  mb_user_member_id :: "int option"
  mb_payments :: "payment list option"
  mb_membershipStatus :: "membershipStatusResponse option"
  mb_showPaymentModal :: bool
  mb_formData :: paymentForm
  mb_isProcessing :: bool
  mb_toasts :: "toast list"
  mb_sent :: "request list"
  mb_cacheCleared :: "string list"

definition initialMemberForm :: paymentForm where
  "initialMemberForm = \<lparr>pf_amount = Num 0, pf_method = ''Credit Card''\<rparr>"

text \<open>
  \<open>handleSubmit\<close>: \<^verbatim>\<open>!user?.member?.id\<close> holds for a missing id and for 0, and
  returns before any request.
\<close>

definition MemberPayment_handleSubmit ::
  "outcome \<Rightarrow> payment list option \<Rightarrow> membershipStatusResponse option \<Rightarrow>
   memberState \<Rightarrow> memberState" where
  "MemberPayment_handleSubmit res fetchedPayments fetchedStatus st =
     (case mb_user_member_id st of
        None \<Rightarrow> st\<lparr>mb_toasts := mb_toasts st @ [ShowError ''Member information not found'']\<rparr>
      | Some member_id \<Rightarrow>
          if member_id = 0
          then st\<lparr>mb_toasts := mb_toasts st @ [ShowError ''Member information not found'']\<rparr>
          else
            (let st1 = st\<lparr>mb_sent := mb_sent st @
                         [CreatePayment \<lparr>cp_member_id = member_id,
                                         cp_amount = pf_amount (mb_formData st),
                                         cp_method = pf_method (mb_formData st)\<rparr>]\<rparr>
             in case res of
                  Resolved \<Rightarrow>
                    st1\<lparr>mb_toasts := mb_toasts st1 @ [ShowSuccess ''Payment successful!''],
                        mb_showPaymentModal := False,
                        mb_formData := initialMemberForm,
                        mb_cacheCleared := mb_cacheCleared st1 @ [''/payments''],
                        mb_sent := mb_sent st1 @ [GetMyPayments, GetMembershipStatus],
                        mb_payments := fetchedPayments,
                        mb_membershipStatus := fetchedStatus\<rparr>
                | Rejected message \<Rightarrow>
                    st1\<lparr>mb_toasts := mb_toasts st1 @
                          [ShowError (errorMessage message ''Payment failed'')]\<rparr>))"

text \<open>\<^verbatim>\<open>disabled={isProcessing || formData.amount <= 0}\<close>\<close>

definition MemberPayment_submitDisabled :: "memberState \<Rightarrow> bool" where
  "MemberPayment_submitDisabled st =
     (mb_isProcessing st \<or> jsLessEq (pf_amount (mb_formData st)) (Num 0))"

text \<open>The amount input of this form is not \<^verbatim>\<open>required\<close>.\<close>

definition MemberPayment_formValid :: "memberState \<Rightarrow> bool" where
  "MemberPayment_formValid st = numberInputValid False (pf_amount (mb_formData st))"

definition MemberPayment_submit ::
  "outcome \<Rightarrow> payment list option \<Rightarrow> membershipStatusResponse option \<Rightarrow>
   memberState \<Rightarrow> memberState" where
  "MemberPayment_submit res fetchedPayments fetchedStatus st =
     (if MemberPayment_submitDisabled st then st
      else if MemberPayment_formValid st
      then MemberPayment_handleSubmit res fetchedPayments fetchedStatus st
      else st)"

text \<open>
  \<open>selectPlan\<close>, and the amount input's \<^verbatim>\<open>onChange\<close> with
  \<open>v = parseFloat(e.target.value)\<close>.
\<close>

definition selectPlan :: "plan \<Rightarrow> memberState \<Rightarrow> memberState" where
  "selectPlan p st =
     st\<lparr>mb_formData := (mb_formData st)\<lparr>pf_amount := Num (of_int (plan_price p))\<rparr>\<rparr>"

definition MemberPayment_amountChange :: "jsNumber \<Rightarrow> memberState \<Rightarrow> memberState" where
  "MemberPayment_amountChange v st = st\<lparr>mb_formData := (mb_formData st)\<lparr>pf_amount := v\<rparr>\<rparr>"

subsection \<open>MembershipsManagement\<close>

record membershipsState =
  mm_memberships :: "membership list option"
  mm_showCreateModal :: bool
  mm_createFormData :: createMembershipData
  mm_isCreating :: bool
  mm_toasts :: "toast list"
  mm_sent :: "request list"

definition initialCreateForm :: createMembershipData where
  "initialCreateForm =
     \<lparr>cm_member_id = 0, cm_type = [], cm_duration = Num 30, cm_fee = Num 0\<rparr>"

definition handleCreateSubmit ::
  "outcome \<Rightarrow> membership list option \<Rightarrow> membershipsState \<Rightarrow> membershipsState" where
  "handleCreateSubmit res fetched st =
     (let st1 = st\<lparr>mm_sent := mm_sent st @ [CreateMembership (mm_createFormData st)]\<rparr>
      in case res of
           Resolved \<Rightarrow>
             st1\<lparr>mm_toasts := mm_toasts st1 @ [ShowSuccess ''Membership created successfully!''],
                 mm_showCreateModal := False,
                 mm_createFormData := initialCreateForm,
                 mm_sent := mm_sent st1 @ [GetMemberships],
                 mm_memberships := fetched\<rparr>
         | Rejected message \<Rightarrow>
             st1\<lparr>mm_toasts := mm_toasts st1 @
                   [ShowError (errorMessage message ''Failed to create membership'')]\<rparr>)"

text \<open>
  \<open>selectMembershipType\<close>, and the \<^verbatim>\<open>onChange\<close> handlers of the three inputs
  below the catalog (\<^verbatim>\<open>e.target.value\<close>, \<^verbatim>\<open>parseInt\<close>, \<^verbatim>\<open>parseFloat\<close>).
\<close>

definition selectMembershipType :: "membershipType \<Rightarrow> membershipsState \<Rightarrow> membershipsState" where
  "selectMembershipType t st =
     st\<lparr>mm_createFormData := (mm_createFormData st)
          \<lparr>cm_type := type_label t,
           cm_duration := Num (of_int (type_duration t)),
           cm_fee := Num (of_int (type_fee t))\<rparr>\<rparr>"

definition typeChange :: "string \<Rightarrow> membershipsState \<Rightarrow> membershipsState" where
  "typeChange v st = st\<lparr>mm_createFormData := (mm_createFormData st)\<lparr>cm_type := v\<rparr>\<rparr>"

definition durationChange :: "jsNumber \<Rightarrow> membershipsState \<Rightarrow> membershipsState" where
  "durationChange v st = st\<lparr>mm_createFormData := (mm_createFormData st)\<lparr>cm_duration := v\<rparr>\<rparr>"

definition feeChange :: "jsNumber \<Rightarrow> membershipsState \<Rightarrow> membershipsState" where
  "feeChange v st = st\<lparr>mm_createFormData := (mm_createFormData st)\<lparr>cm_fee := v\<rparr>\<rparr>"

section \<open>Example values\<close>

text \<open>Concrete records and page states for the instances below.\<close>

definition exampleMembership :: "int \<Rightarrow> string \<Rightarrow> membership" where
  "exampleMembership i s =
     \<lparr>ms_id = i, ms_member_id = 7, ms_type = ''Monthly'', ms_duration = 30, ms_fee = 50000,
      ms_start_date = ''2024-01-01'', ms_end_date = ''2024-01-31'', ms_status = s\<rparr>"

definition examplePayment :: "int \<Rightarrow> int \<Rightarrow> string \<Rightarrow> string \<Rightarrow> payment" where
  "examplePayment i a d s =
     \<lparr>pay_id = i, pay_member_id = 7, pay_amount = a, pay_method = ''Cash'',
      pay_date = d, pay_status = s\<rparr>"

definition exampleAdminState :: "int \<Rightarrow> jsNumber \<Rightarrow> adminState" where
  "exampleAdminState member a =
     \<lparr>ad_payments = Some [], ad_showCreateModal = True,
      ad_formData = \<lparr>cp_member_id = member, cp_amount = a, cp_method = ''Credit Card''\<rparr>,
      ad_isCreating = False, ad_toasts = [], ad_sent = []\<rparr>"

definition exampleMemberState :: "int option \<Rightarrow> jsNumber \<Rightarrow> memberState" where
  "exampleMemberState member a =
     \<lparr>mb_user_member_id = member, mb_payments = Some [], mb_membershipStatus = None,
      mb_showPaymentModal = True,
      mb_formData = \<lparr>pf_amount = a, pf_method = ''Credit Card''\<rparr>,
      mb_isProcessing = False, mb_toasts = [], mb_sent = [], mb_cacheCleared = []\<rparr>"

section \<open>Rounding facts\<close>

lemma bitLength_2_53: "bitLength 9007199254740992 = 54"
  by (simp add: bitLength.simps)

lemma bitLength_2_53_1: "bitLength 9007199254740993 = 54"
  by (simp add: bitLength.simps)

lemma roundNat_2_53: "roundNat 9007199254740992 = 9007199254740992"
  by (simp add: roundNat_def bitLength_2_53)

lemma roundNat_2_53_1: "roundNat 9007199254740993 = 9007199254740992"
  by (simp add: roundNat_def bitLength_2_53_1)

lemma roundNat_exact: "n \<le> 9007199254740992 \<Longrightarrow> roundNat n = n"
proof (cases "n < 9007199254740992")
  case True
  then show ?thesis by (simp add: roundNat_def)
next
  case False
  assume "n \<le> 9007199254740992"
  with False have n: "n = 9007199254740992" by simp
  show ?thesis unfolding n by (rule roundNat_2_53)
qed

lemma jsAdd_exact:
  "0 \<le> a \<Longrightarrow> 0 \<le> b \<Longrightarrow> a + b \<le> 9007199254740992 \<Longrightarrow> jsAdd a b = a + b"
proof -
  assume a: "0 \<le> a" and b: "0 \<le> b" and le: "a + b \<le> 9007199254740992"
  have "nat (a + b) \<le> 9007199254740992" using le by simp
  then have "roundNat (nat (a + b)) = nat (a + b)" by (rule roundNat_exact)
  then show ?thesis using a b by (simp add: jsAdd_def roundToDouble_def)
qed

lemma fold_jsAdd_exact:
  "0 \<le> acc \<Longrightarrow> \<forall>p \<in> set ps. 0 \<le> pay_amount p \<Longrightarrow>
   acc + sum_list (map pay_amount ps) \<le> 9007199254740992 \<Longrightarrow>
   fold (\<lambda>p acc. jsAdd acc (pay_amount p)) ps acc = acc + sum_list (map pay_amount ps)"
proof (induction ps arbitrary: acc)
  case Nil
  then show ?case by simp
next
  case (Cons p ps)
  have nn: "0 \<le> sum_list (map pay_amount ps)"
    using Cons.prems(2) by (intro sum_list_nonneg) auto
  have p0: "0 \<le> pay_amount p" using Cons.prems(2) by simp
  have step: "jsAdd acc (pay_amount p) = acc + pay_amount p"
    using Cons.prems(1,3) p0 nn by (intro jsAdd_exact) auto
  have "fold (\<lambda>p acc. jsAdd acc (pay_amount p)) ps (acc + pay_amount p)
        = (acc + pay_amount p) + sum_list (map pay_amount ps)"
    using Cons.prems p0 by (intro Cons.IH) auto
  then show ?case using step by simp
qed

lemma sumAmounts_exact:
  "\<forall>p \<in> set ps. 0 \<le> pay_amount p \<Longrightarrow> sum_list (map pay_amount ps) \<le> 9007199254740992 \<Longrightarrow>
   sumAmounts ps = sum_list (map pay_amount ps)"
  using fold_jsAdd_exact [of 0 ps] by (simp add: sumAmounts_def)

section \<open>Calendar facts\<close>

lemma div_pred:
  fixes y k :: int
  assumes "0 < k"
  shows "y div k = (y - 1) div k + (if y mod k = 0 then 1 else 0)"
proof (cases "y mod k = 0")
  case True
  have "y = k * (y div k) + y mod k" by simp
  with True have "y - 1 = k * (y div k - 1) + (k - 1)" by (simp add: algebra_simps)
  moreover have "0 \<le> k - 1" "k - 1 < k" using assms by simp_all
  ultimately have "(y - 1) div k = y div k - 1" by (rule int_div_pos_eq)
  with True show ?thesis by simp
next
  case False
  have r: "0 \<le> y mod k" "y mod k < k" using assms by simp_all
  have "y = k * (y div k) + y mod k" by simp
  then have "y - 1 = k * (y div k) + (y mod k - 1)" by simp
  moreover have "0 \<le> y mod k - 1" "y mod k - 1 < k" using r False by simp_all
  ultimately have "(y - 1) div k = y div k" by (rule int_div_pos_eq)
  with False show ?thesis by simp
qed

lemma mod_100_4: "(y::int) mod 100 = 0 \<Longrightarrow> y mod 4 = 0"
  using mod_mod_cancel [of 4 100 y] by simp

lemma mod_400_100: "(y::int) mod 400 = 0 \<Longrightarrow> y mod 100 = 0"
  using mod_mod_cancel [of 100 400 y] by simp

lemma year_step_sum:
  fixes y A B C A' B' C' :: int
  assumes a: "A = A' + (if y mod 4 = 0 then 1 else 0)"
    and b: "B = B' + (if y mod 100 = 0 then 1 else 0)"
    and c: "C = C' + (if y mod 400 = 0 then 1 else 0)"
  shows "365 * y + A - B + C =
         (365 * (y - 1) + A' - B' + C') + 365 + (if y mod 4 = 0 then 1 else 0)
           - (if y mod 100 = 0 then 1 else 0) + (if y mod 400 = 0 then 1 else 0)"
  unfolding a b c by (simp add: algebra_simps)

lemma leap_correction:
  fixes y D :: int
  shows "D + 365 + (if y mod 4 = 0 then 1 else 0) - (if y mod 100 = 0 then 1 else 0)
           + (if y mod 400 = 0 then 1 else 0)
         = D + (if isLeapYear y then 366 else 365)"
proof (cases "y mod 4 = 0")
  case False
  with mod_100_4 [of y] mod_400_100 [of y] show ?thesis by (auto simp add: isLeapYear_def)
next
  case True
  show ?thesis
  proof (cases "y mod 100 = 0")
    case False
    with True mod_400_100 [of y] show ?thesis by (auto simp add: isLeapYear_def)
  next
    case h: True
    show ?thesis
    proof (cases "y mod 400 = 0")
      case True
      with h \<open>y mod 4 = 0\<close> show ?thesis by (simp add: isLeapYear_def)
    next
      case False
      with h \<open>y mod 4 = 0\<close> show ?thesis by (simp add: isLeapYear_def)
    qed
  qed
qed

lemma daysBeforeYear_next:
  "daysBeforeYear (y + 1) = daysBeforeYear y + (if isLeapYear y then 366 else 365)"
proof -
  have "daysBeforeYear (y + 1) = 365 * y + y div 4 - y div 100 + y div 400"
    by (simp add: daysBeforeYear_def)
  also have "\<dots> = (365 * (y - 1) + (y - 1) div 4 - (y - 1) div 100 + (y - 1) div 400) + 365
      + (if y mod 4 = 0 then 1 else 0) - (if y mod 100 = 0 then 1 else 0)
      + (if y mod 400 = 0 then 1 else 0)"
    by (rule year_step_sum; rule div_pred; simp)
  also have "\<dots> = (365 * (y - 1) + (y - 1) div 4 - (y - 1) div 100 + (y - 1) div 400)
      + (if isLeapYear y then 366 else 365)"
    by (rule leap_correction)
  finally show ?thesis by (simp add: daysBeforeYear_def)
qed

lemma daysBeforeMonth_Suc:
  "1 \<le> m \<Longrightarrow> daysBeforeMonth y (Suc m) = daysBeforeMonth y m + int (daysInMonth y m)"
  by (simp add: daysBeforeMonth_def)

lemma year_length:
  "daysBeforeMonth y 12 + int (daysInMonth y 12) = (if isLeapYear y then 366 else 365)"
proof -
  have "[1..<12] = [1, 2, 3, 4, 5, 6, 7, 8, 9, 10, 11::nat]" by (simp add: upt_rec)
  then show ?thesis by (simp add: daysBeforeMonth_def daysInMonth_def)
qed

lemma daysInMonth_pos: "1 \<le> daysInMonth y m"
  by (simp add: daysInMonth_def)

lemma nextDay_valid: "validDate d \<Longrightarrow> validDate (nextDay d)"
  using daysInMonth_pos [of "d_year d" "d_month d + 1"] daysInMonth_pos [of "d_year d + 1" 1]
  by (auto simp add: validDate_def nextDay_def)

lemma nextDay_dayNumber: "validDate d \<Longrightarrow> dayNumber (nextDay d) = dayNumber d + 1"
proof -
  assume v: "validDate d"
  show ?thesis
  proof (cases "d_day d < daysInMonth (d_year d) (d_month d)")
    case True
    then show ?thesis by (simp add: nextDay_def dayNumber_def)
  next
    case False
    with v have full: "d_day d = daysInMonth (d_year d) (d_month d)"
      by (simp add: validDate_def)
    show ?thesis
    proof (cases "d_month d < 12")
      case True
      have "1 \<le> d_month d" using v by (simp add: validDate_def)
      then have "daysBeforeMonth (d_year d) (Suc (d_month d))
                 = daysBeforeMonth (d_year d) (d_month d) + int (daysInMonth (d_year d) (d_month d))"
        by (rule daysBeforeMonth_Suc)
      with True False full show ?thesis by (simp add: nextDay_def dayNumber_def)
    next
      case h: False
      with v have m: "d_month d = 12" by (simp add: validDate_def)
      have "dayNumber (nextDay d) = daysBeforeYear (d_year d + 1) + 1"
        using False h by (simp add: nextDay_def dayNumber_def daysBeforeMonth_def)
      also have "\<dots> = daysBeforeYear (d_year d) + (if isLeapYear (d_year d) then 366 else 365) + 1"
        by (simp only: daysBeforeYear_next)
      also have "\<dots> = daysBeforeYear (d_year d)
                   + (daysBeforeMonth (d_year d) 12 + int (daysInMonth (d_year d) 12)) + 1"
        by (simp only: year_length)
      also have "\<dots> = dayNumber d + 1" using m full by (simp add: dayNumber_def)
      finally show ?thesis .
    qed
  qed
qed

lemma addDays_dayNumber:
  "validDate d \<Longrightarrow> validDate (addDays d n) \<and> dayNumber (addDays d n) = dayNumber d + int n"
proof (induction n arbitrary: d)
  case 0
  then show ?case by simp
next
  case (Suc n)
  have v: "validDate (nextDay d)" using Suc.prems by (rule nextDay_valid)
  have "dayNumber (nextDay d) = dayNumber d + 1" using Suc.prems by (rule nextDay_dayNumber)
  with Suc.IH [OF v] show ?case by simp
qed

lemma addDays_2024:
  "addDays \<lparr>d_year = 2024, d_month = 1, d_day = 1\<rparr> 365 = \<lparr>d_year = 2024, d_month = 12, d_day = 31\<rparr>"
  by (simp add: numeral_eq_Suc nextDay_def daysInMonth_def isLeapYear_def)

section \<open>Plan catalogs and end dates (C7, C5)\<close>

text \<open>
  C7: the admin-side and member-side plan catalogs disagree on the fee of a same-named
  plan (Annual: 550000 against 480000), so they are different label-to-fee tables,
  while the durations of both catalogs are 30, 90, 180 and 365 days.
\<close>

theorem catalogs_differ_in_fee:
  "adminFees ''Annual'' = Some 550000 \<and> memberFees ''Annual'' = Some 480000 \<and>
   adminFees \<noteq> memberFees \<and>
   map type_duration membershipTypes = [30, 90, 180, 365] \<and>
   map plan_duration membershipPlans = [30, 90, 180, 365]"
proof -
  have a: "adminFees ''Annual'' = Some 550000"
    by (simp add: adminFees_def membershipTypes_def)
  have m: "memberFees ''Annual'' = Some 480000"
    by (simp add: memberFees_def membershipPlans_def)
  have "adminFees \<noteq> memberFees"
  proof
    assume "adminFees = memberFees"
    then have "adminFees ''Annual'' = memberFees ''Annual''" by simp
    with a m show False by simp
  qed
  with a m show ?thesis by (simp add: membershipTypes_def membershipPlans_def)
qed

text \<open>
  C5: at creation the end date is the start date plus the duration counted in days. A
  membership of 365 days that starts on 2024-01-01 ends on 2024-12-31, since 2024 is a
  leap year.
\<close>

theorem end_date_is_start_plus_duration:
  "(validDate start_date \<longrightarrow>
      validDate (membershipEndDate start_date duration) \<and>
      dayNumber (membershipEndDate start_date duration) = dayNumber start_date + int duration) \<and>
   membershipEndDate \<lparr>d_year = 2024, d_month = 1, d_day = 1\<rparr> 365
     = \<lparr>d_year = 2024, d_month = 12, d_day = 31\<rparr>"
  unfolding membershipEndDate_def using addDays_dayNumber addDays_2024 by blast

theorem end_date_is_start_plus_duration_witness:
  "validDate \<lparr>d_year = 2023, d_month = 12, d_day = 25\<rparr> \<and>
   validDate (membershipEndDate \<lparr>d_year = 2023, d_month = 12, d_day = 25\<rparr> 30) \<and>
   dayNumber (membershipEndDate \<lparr>d_year = 2023, d_month = 12, d_day = 25\<rparr> 30)
     = dayNumber \<lparr>d_year = 2023, d_month = 12, d_day = 25\<rparr> + 30 \<and>
   membershipEndDate \<lparr>d_year = 2023, d_month = 12, d_day = 25\<rparr> 30
     = \<lparr>d_year = 2024, d_month = 1, d_day = 24\<rparr>"
proof -
  have v: "validDate \<lparr>d_year = 2023, d_month = 12, d_day = 25\<rparr>"
    by (simp add: validDate_def daysInMonth_def)
  have e: "membershipEndDate \<lparr>d_year = 2023, d_month = 12, d_day = 25\<rparr> 30
             = \<lparr>d_year = 2024, d_month = 1, d_day = 24\<rparr>"
    by (simp add: membershipEndDate_def numeral_eq_Suc nextDay_def daysInMonth_def isLeapYear_def)
  from v e end_date_is_start_plus_duration [of "\<lparr>d_year = 2023, d_month = 12, d_day = 25\<rparr>" 30]
  show ?thesis by simp
qed

theorem end_date_2025_counterexample:
  "membershipEndDate \<lparr>d_year = 2024, d_month = 1, d_day = 1\<rparr> 365
     \<noteq> \<lparr>d_year = 2025, d_month = 1, d_day = 1\<rparr>"
  unfolding membershipEndDate_def addDays_2024 by simp

section \<open>Status, totals, the month filter and styles (C1, C2, C8, C10)\<close>

lemma find_none_active: "\<forall>x \<in> set ms. \<not> isActive x \<Longrightarrow> find isActive ms = None"
  by (induction ms) simp_all

lemma find_skips_inactive:
  "\<forall>x \<in> set before. \<not> isActive x \<Longrightarrow> find isActive (before @ rest) = find isActive rest"
  by (induction before) simp_all

lemma filter_none_active: "\<forall>x \<in> set ms. \<not> isActive x \<Longrightarrow> filter isActive ms = []"
  by (induction ms) simp_all

text \<open>
  C1: for a collection with exactly one active entry (inactive entries before and after
  it), the resolver answers true with that entry, and selecting by status = "active"
  yields that entry alone; for a collection with no active entry the resolver answers
  false with no membership, and the selection is empty.
\<close>

theorem resolver_selects_the_active_entry:
  "(isActive m \<and> (\<forall>x \<in> set before. \<not> isActive x) \<and> (\<forall>x \<in> set after. \<not> isActive x) \<longrightarrow>
      resolveMembershipStatus (before @ m # after)
        = \<lparr>has_active_membership = True, active_membership = Some m\<rparr> \<and>
      filter isActive (before @ m # after) = [m] \<and>
      activeMemberships (before @ m # after) = 1 \<and>
      activeCount (Some (before @ m # after)) = 1) \<and>
   ((\<forall>x \<in> set ms. \<not> isActive x) \<longrightarrow>
      resolveMembershipStatus ms = \<lparr>has_active_membership = False, active_membership = None\<rparr> \<and>
      filter isActive ms = [] \<and>
      activeMemberships ms = 0 \<and>
      activeCount (Some ms) = 0)"
proof (intro conjI impI)
  assume h: "isActive m \<and> (\<forall>x \<in> set before. \<not> isActive x) \<and> (\<forall>x \<in> set after. \<not> isActive x)"
  then have f: "find isActive (before @ m # after) = Some m"
    by (simp add: find_skips_inactive)
  from h have g: "filter isActive (before @ m # after) = [m]"
    by (simp add: filter_none_active)
  show "resolveMembershipStatus (before @ m # after)
        = \<lparr>has_active_membership = True, active_membership = Some m\<rparr>"
    by (simp only: resolveMembershipStatus_def f option.case)
  show "filter isActive (before @ m # after) = [m]" by (rule g)
  show "activeMemberships (before @ m # after) = 1"
    by (simp only: activeMemberships_def g) simp
  show "activeCount (Some (before @ m # after)) = 1"
    by (simp only: activeCount_def g option.case) simp
next
  assume h: "\<forall>x \<in> set ms. \<not> isActive x"
  then have f: "find isActive ms = None" by (rule find_none_active)
  from h have g: "filter isActive ms = []" by (rule filter_none_active)
  show "resolveMembershipStatus ms = \<lparr>has_active_membership = False, active_membership = None\<rparr>"
    by (simp only: resolveMembershipStatus_def f option.case)
  show "filter isActive ms = []" by (rule g)
  show "activeMemberships ms = 0" by (simp only: activeMemberships_def g) simp
  show "activeCount (Some ms) = 0" by (simp only: activeCount_def g option.case) simp
qed

theorem resolver_selects_the_active_entry_witness:
  "resolveMembershipStatus
     [exampleMembership 1 ''expired'', exampleMembership 2 ''active'', exampleMembership 3 ''cancelled'']
     = \<lparr>has_active_membership = True, active_membership = Some (exampleMembership 2 ''active'')\<rparr> \<and>
   filter isActive
     [exampleMembership 1 ''expired'', exampleMembership 2 ''active'', exampleMembership 3 ''cancelled'']
     = [exampleMembership 2 ''active''] \<and>
   resolveMembershipStatus [exampleMembership 1 ''expired'']
     = \<lparr>has_active_membership = False, active_membership = None\<rparr> \<and>
   filter isActive [exampleMembership 1 ''expired''] = []"
  using resolver_selects_the_active_entry
          [of "exampleMembership 2 ''active''" "[exampleMembership 1 ''expired'']"
              "[exampleMembership 3 ''cancelled'']" "[exampleMembership 1 ''expired'']"]
  by (simp add: isActive_def exampleMembership_def)

text \<open>
  C2: for every list of payments, of any statuses, whose amounts are non-negative
  integers with an exact sum of at most 2^53 = 9007199254740992, the displayed total is
  the exact sum of the amounts; the total of the empty list, and of a list not yet
  fetched, is 0.
\<close>

theorem total_is_exact_sum:
  "((\<forall>p \<in> set ps. 0 \<le> pay_amount p) \<and> sum_list (map pay_amount ps) \<le> 9007199254740992 \<longrightarrow>
      totalRevenue (Some ps) = sum_list (map pay_amount ps) \<and>
      totalPaid (Some ps) = sum_list (map pay_amount ps)) \<and>
   totalRevenue (Some []) = 0 \<and> totalPaid (Some []) = 0 \<and>
   totalRevenue None = 0 \<and> totalPaid None = 0"
proof (intro conjI impI)
  assume h: "(\<forall>p \<in> set ps. 0 \<le> pay_amount p) \<and> sum_list (map pay_amount ps) \<le> 9007199254740992"
  then have e: "sumAmounts ps = sum_list (map pay_amount ps)"
    by (intro sumAmounts_exact) simp_all
  show "totalRevenue (Some ps) = sum_list (map pay_amount ps)"
    by (simp add: totalRevenue_def e Let_def)
  show "totalPaid (Some ps) = sum_list (map pay_amount ps)"
    by (simp add: totalPaid_def e Let_def)
qed (simp_all add: totalRevenue_def totalPaid_def sumAmounts_def)

theorem total_is_exact_sum_witness:
  "totalRevenue (Some [examplePayment 1 50000 ''2024-03-02'' ''completed'',
                       examplePayment 2 135000 ''2024-03-09'' ''failed'']) = 185000 \<and>
   totalPaid (Some [examplePayment 1 50000 ''2024-03-02'' ''completed'',
                    examplePayment 2 135000 ''2024-03-09'' ''failed'']) = 185000"
  using total_is_exact_sum
          [of "[examplePayment 1 50000 ''2024-03-02'' ''completed'',
                examplePayment 2 135000 ''2024-03-09'' ''failed'']"]
  by (simp add: examplePayment_def)

theorem total_rounds_above_2_53_counterexample:
  "totalRevenue (Some [examplePayment 1 9007199254740992 ''2024-03-02'' ''completed'',
                       examplePayment 2 1 ''2024-03-09'' ''completed''])
     \<noteq> sum_list (map pay_amount
           [examplePayment 1 9007199254740992 ''2024-03-02'' ''completed'',
            examplePayment 2 1 ''2024-03-09'' ''completed''])"
  by (simp add: totalRevenue_def sumAmounts_def jsAdd_def roundToDouble_def examplePayment_def
        roundNat_2_53 roundNat_2_53_1 Let_def)

lemma newDate_date_only:
  "parseDateOnly s = Some d \<Longrightarrow> newDate parseOther s = ValidDate \<lparr>tv_date = d, tv_minute = 0\<rparr>"
  by (simp add: newDate_def)

lemma localDate_east:
  "0 \<le> zone \<lparr>tv_date = d, tv_minute = 0\<rparr> \<Longrightarrow> zone \<lparr>tv_date = d, tv_minute = 0\<rparr> < 1440 \<Longrightarrow>
   localDate zone \<lparr>tv_date = d, tv_minute = 0\<rparr> = d"
  by (simp add: localDate_def Let_def)

lemma inThisMonth_iff:
  "inThisMonth parseOther zone now p \<longleftrightarrow>
     (\<exists>t. newDate parseOther (pay_date p) = ValidDate t \<and>
          sameMonthAndYear (localDate zone t) (localDate zone now))"
  by (cases "newDate parseOther (pay_date p)")
     (auto simp add: inThisMonth_def sameMonthAndYear_def Let_def)

lemma filter_inThisMonth:
  "filter (inThisMonth parseOther zone now) ps
     = filter (\<lambda>p. \<exists>t. newDate parseOther (pay_date p) = ValidDate t \<and>
                        sameMonthAndYear (localDate zone t) (localDate zone now)) ps"
proof -
  have "inThisMonth parseOther zone now
          = (\<lambda>p. \<exists>t. newDate parseOther (pay_date p) = ValidDate t \<and>
                      sameMonthAndYear (localDate zone t) (localDate zone now))"
    by (rule ext) (rule inThisMonth_iff)
  then show ?thesis by simp
qed

text \<open>
  C8: the "this month" subset is exactly the payments, in their order, whose date as
  parsed by the Date constructor and read in the browser's local time zone has the month
  and the year of the current local date; an unparseable date is left out, and the
  status plays no part. For a date-only string YYYY-MM-DD and a browser at or east of
  UTC, that is the month and year written in the string. The monthly revenue is the sum
  of the amounts of the subset, where these are non-negative with a sum of at most 2^53.
\<close>

theorem this_month_filter:
  "thisMonthPayments parseOther zone now (Some ps)
     = filter (\<lambda>p. \<exists>t. newDate parseOther (pay_date p) = ValidDate t \<and>
                        sameMonthAndYear (localDate zone t) (localDate zone now)) ps \<and>
   (parseDateOnly (pay_date p) = Some d \<and>
    0 \<le> zone \<lparr>tv_date = d, tv_minute = 0\<rparr> \<and> zone \<lparr>tv_date = d, tv_minute = 0\<rparr> < 1440 \<longrightarrow>
      (p \<in> set (thisMonthPayments parseOther zone now (Some ps)) \<longleftrightarrow>
         p \<in> set ps \<and> sameMonthAndYear d (localDate zone now))) \<and>
   inThisMonth parseOther zone now (p\<lparr>pay_status := s\<rparr>) = inThisMonth parseOther zone now p \<and>
   ((\<forall>q \<in> set (thisMonthPayments parseOther zone now (Some ps)). 0 \<le> pay_amount q) \<and>
    sum_list (map pay_amount (thisMonthPayments parseOther zone now (Some ps)))
      \<le> 9007199254740992 \<longrightarrow>
      thisMonthRevenue parseOther zone now ps
        = sum_list (map pay_amount
            (filter (\<lambda>p. \<exists>t. newDate parseOther (pay_date p) = ValidDate t \<and>
                              sameMonthAndYear (localDate zone t) (localDate zone now)) ps)))"
proof (intro conjI impI)
  show "thisMonthPayments parseOther zone now (Some ps)
     = filter (\<lambda>p. \<exists>t. newDate parseOther (pay_date p) = ValidDate t \<and>
                        sameMonthAndYear (localDate zone t) (localDate zone now)) ps"
    by (simp add: thisMonthPayments_def filter_inThisMonth)
  show "inThisMonth parseOther zone now (p\<lparr>pay_status := s\<rparr>) = inThisMonth parseOther zone now p"
    by (simp add: inThisMonth_def)
next
  assume h: "parseDateOnly (pay_date p) = Some d \<and>
    0 \<le> zone \<lparr>tv_date = d, tv_minute = 0\<rparr> \<and> zone \<lparr>tv_date = d, tv_minute = 0\<rparr> < 1440"
  then have n: "newDate parseOther (pay_date p) = ValidDate \<lparr>tv_date = d, tv_minute = 0\<rparr>"
    by (simp add: newDate_date_only)
  from h have l: "localDate zone \<lparr>tv_date = d, tv_minute = 0\<rparr> = d"
    by (simp add: localDate_east)
  have "inThisMonth parseOther zone now p \<longleftrightarrow> sameMonthAndYear d (localDate zone now)"
    by (simp add: inThisMonth_iff n l)
  then show "p \<in> set (thisMonthPayments parseOther zone now (Some ps)) \<longleftrightarrow>
         p \<in> set ps \<and> sameMonthAndYear d (localDate zone now)"
    by (simp add: thisMonthPayments_def)
next
  assume h: "(\<forall>q \<in> set (thisMonthPayments parseOther zone now (Some ps)). 0 \<le> pay_amount q) \<and>
    sum_list (map pay_amount (thisMonthPayments parseOther zone now (Some ps)))
      \<le> 9007199254740992"
  have f: "thisMonthPayments parseOther zone now (Some ps)
             = filter (inThisMonth parseOther zone now) ps"
    by (simp add: thisMonthPayments_def)
  have "fold (\<lambda>p acc. jsAdd acc (pay_amount p)) (filter (inThisMonth parseOther zone now) ps) 0
          = 0 + sum_list (map pay_amount (filter (inThisMonth parseOther zone now) ps))"
    using h unfolding f by (intro fold_jsAdd_exact) simp_all
  then show "thisMonthRevenue parseOther zone now ps
        = sum_list (map pay_amount
            (filter (\<lambda>p. \<exists>t. newDate parseOther (pay_date p) = ValidDate t \<and>
                              sameMonthAndYear (localDate zone t) (localDate zone now)) ps))"
    by (simp add: thisMonthRevenue_def filter_inThisMonth)
qed

theorem this_month_filter_witness:
  "parseDateOnly ''2024-03-01'' = Some \<lparr>d_year = 2024, d_month = 3, d_day = 1\<rparr> \<and>
   thisMonthPayments (\<lambda>s. None) (\<lambda>t. 390)
     \<lparr>tv_date = \<lparr>d_year = 2024, d_month = 3, d_day = 15\<rparr>, tv_minute = 600\<rparr>
     (Some [examplePayment 1 50000 ''2024-03-01'' ''failed'',
            examplePayment 2 135000 ''2024-03-31'' ''completed'',
            examplePayment 3 255000 ''2024-04-01'' ''completed'',
            examplePayment 4 480000 ''soon'' ''completed''])
     = [examplePayment 1 50000 ''2024-03-01'' ''failed'',
        examplePayment 2 135000 ''2024-03-31'' ''completed''] \<and>
   thisMonthRevenue (\<lambda>s. None) (\<lambda>t. 390)
     \<lparr>tv_date = \<lparr>d_year = 2024, d_month = 3, d_day = 15\<rparr>, tv_minute = 600\<rparr>
     [examplePayment 1 50000 ''2024-03-01'' ''failed'',
      examplePayment 2 135000 ''2024-03-31'' ''completed'',
      examplePayment 3 255000 ''2024-04-01'' ''completed'',
      examplePayment 4 480000 ''soon'' ''completed''] = 185000"
proof -
  let ?now = "\<lparr>tv_date = \<lparr>d_year = 2024, d_month = 3, d_day = 15\<rparr>, tv_minute = 600\<rparr>"
  let ?p1 = "examplePayment 1 50000 ''2024-03-01'' ''failed''"
  let ?p2 = "examplePayment 2 135000 ''2024-03-31'' ''completed''"
  let ?ps = "[?p1, ?p2, examplePayment 3 255000 ''2024-04-01'' ''completed'',
              examplePayment 4 480000 ''soon'' ''completed'']"
  have parse:
    "parseDateOnly ''2024-03-01'' = Some \<lparr>d_year = 2024, d_month = 3, d_day = 1\<rparr>"
    "parseDateOnly ''2024-03-31'' = Some \<lparr>d_year = 2024, d_month = 3, d_day = 31\<rparr>"
    "parseDateOnly ''2024-04-01'' = Some \<lparr>d_year = 2024, d_month = 4, d_day = 1\<rparr>"
    "parseDateOnly ''soon'' = None"
    by (simp_all add: parseDateOnly_def digitsValue_def digitValue_def validDate_def
          daysInMonth_def isLeapYear_def Let_def)
  have sel: "thisMonthPayments (\<lambda>s. None) (\<lambda>t. 390) ?now (Some ?ps) = [?p1, ?p2]"
    by (simp add: thisMonthPayments_def inThisMonth_def newDate_def parse localDate_def
          examplePayment_def Let_def)
  note T = this_month_filter
      [where parseOther = "\<lambda>s. None" and zone = "\<lambda>t. 390" and now = ?now and ps = ?ps
         and p = ?p1 and d = "\<lparr>d_year = 2024, d_month = 3, d_day = 1\<rparr>"]
  have c1: "thisMonthPayments (\<lambda>s. None) (\<lambda>t. 390) ?now (Some ?ps)
     = filter (\<lambda>p. \<exists>t. newDate (\<lambda>s. None) (pay_date p) = ValidDate t \<and>
                        sameMonthAndYear (localDate (\<lambda>t. 390) t) (localDate (\<lambda>t. 390) ?now)) ?ps"
    using T by (rule conjunct1)
  have bound: "(\<forall>q \<in> set (thisMonthPayments (\<lambda>s. None) (\<lambda>t. 390) ?now (Some ?ps)). 0 \<le> pay_amount q) \<and>
      sum_list (map pay_amount (thisMonthPayments (\<lambda>s. None) (\<lambda>t. 390) ?now (Some ?ps)))
        \<le> 9007199254740992"
    unfolding sel by (simp add: examplePayment_def)
  have "thisMonthRevenue (\<lambda>s. None) (\<lambda>t. 390) ?now ?ps
     = sum_list (map pay_amount
         (filter (\<lambda>p. \<exists>t. newDate (\<lambda>s. None) (pay_date p) = ValidDate t \<and>
                        sameMonthAndYear (localDate (\<lambda>t. 390) t) (localDate (\<lambda>t. 390) ?now)) ?ps))"
    using T [THEN conjunct2, THEN conjunct2, THEN conjunct2] bound by (rule mp)
  also have "\<dots> = sum_list (map pay_amount [?p1, ?p2])"
    unfolding c1 [symmetric] sel by (rule refl)
  also have "\<dots> = 185000" by (simp add: examplePayment_def)
  finally have rev: "thisMonthRevenue (\<lambda>s. None) (\<lambda>t. 390) ?now ?ps = 185000" .
  from parse(1) sel rev show ?thesis by (intro conjI)
qed

theorem april_payment_counted_in_march_counterexample:
  "parseDateOnly ''2024-04-01'' = Some \<lparr>d_year = 2024, d_month = 4, d_day = 1\<rparr> \<and>
   localDate (\<lambda>t. - 420)
     \<lparr>tv_date = \<lparr>d_year = 2024, d_month = 3, d_day = 15\<rparr>, tv_minute = 1080\<rparr>
     = \<lparr>d_year = 2024, d_month = 3, d_day = 15\<rparr> \<and>
   \<not> sameMonthAndYear \<lparr>d_year = 2024, d_month = 4, d_day = 1\<rparr>
         \<lparr>d_year = 2024, d_month = 3, d_day = 15\<rparr> \<and>
   thisMonthPayments (\<lambda>s. None) (\<lambda>t. - 420)
     \<lparr>tv_date = \<lparr>d_year = 2024, d_month = 3, d_day = 15\<rparr>, tv_minute = 1080\<rparr>
     (Some [examplePayment 1 50000 ''2024-04-01'' ''completed''])
     = [examplePayment 1 50000 ''2024-04-01'' ''completed''] \<and>
   thisMonthPayments (\<lambda>s. None) (\<lambda>t. - 420)
     \<lparr>tv_date = \<lparr>d_year = 2024, d_month = 3, d_day = 15\<rparr>, tv_minute = 1080\<rparr>
     (Some [examplePayment 2 135000 ''2024-03-01'' ''completed'']) = []"
proof -
  have parse:
    "parseDateOnly ''2024-04-01'' = Some \<lparr>d_year = 2024, d_month = 4, d_day = 1\<rparr>"
    "parseDateOnly ''2024-03-01'' = Some \<lparr>d_year = 2024, d_month = 3, d_day = 1\<rparr>"
    by (simp_all add: parseDateOnly_def digitsValue_def digitValue_def validDate_def
          daysInMonth_def isLeapYear_def Let_def)
  show ?thesis
    by (simp add: parse thisMonthPayments_def inThisMonth_def newDate_def localDate_def
          prevDay_def daysInMonth_def isLeapYear_def sameMonthAndYear_def examplePayment_def
          Let_def)
qed

lemma getStatusConfig_fallback:
  "status \<notin> set [''completed'', ''pending'', ''failed''] \<Longrightarrow> status \<notin> set objectPrototypeKeys \<Longrightarrow>
   getStatusConfig status = Own \<lparr>style_bg = ''from-green-100 to-emerald-100'',
                                style_text = ''text-green-700'', style_icon = ''CheckCircle''\<rparr>"
  by (simp add: getStatusConfig_def getProperty_def configs_def)

lemma getStatusBadge_fallback:
  "status \<notin> set [''active'', ''expired'', ''cancelled''] \<Longrightarrow> status \<notin> set objectPrototypeKeys \<Longrightarrow>
   getStatusBadge status = Own \<lparr>style_bg = ''from-green-100 to-emerald-100'',
                               style_text = ''text-green-700'', style_icon = ''CheckCircle''\<rparr>"
  by (simp add: getStatusBadge_def getProperty_def styles_def)

text \<open>
  C10: at the status "constructor", which is none of the enumerated statuses, both
  lookups return the member inherited from Object.prototype instead of the default
  style.
\<close>

theorem inherited_key_bypasses_default:
  "getStatusConfig ''constructor'' = Inherited ''constructor'' \<and>
   getStatusBadge ''constructor'' = Inherited ''constructor'' \<and>
   getStatusConfig ''constructor'' \<noteq> getStatusConfig ''completed'' \<and>
   getStatusBadge ''constructor'' \<noteq> getStatusBadge ''active''"
  by (simp add: getStatusConfig_def getStatusBadge_def getProperty_def configs_def styles_def
        objectPrototypeKeys_def)

section \<open>Forms (C3, C4, C6, C9)\<close>

lemma natToString_nonempty: "natToString n \<noteq> []"
  by (subst natToString.simps) simp

lemma intToString_nonempty: "intToString i \<noteq> []"
  by (simp add: intToString_def natToString_nonempty)

lemma intToString_0: "intToString 0 = ''0''"
  by (simp add: intToString_def natToString.simps digitChar_def)

text \<open>
  C3: with an amount of 0 or less in the form, activating the submit button of the admin
  payment-recording form or of the member payment form leaves the page's state as it
  was; in particular no request is added to those sent.
\<close>

theorem nonpositive_amount_is_not_submitted:
  "(jsLessEq (cp_amount (ad_formData st)) (Num 0) \<longrightarrow>
      PaymentsManagement_submit res fetched st = st \<and>
      ad_sent (PaymentsManagement_submit res fetched st) = ad_sent st) \<and>
   (jsLessEq (pf_amount (mb_formData mst)) (Num 0) \<longrightarrow>
      MemberPayment_submit res fetchedPayments fetchedStatus mst = mst \<and>
      mb_sent (MemberPayment_submit res fetchedPayments fetchedStatus mst) = mb_sent mst)"
  by (simp add: PaymentsManagement_submit_def PaymentsManagement_submitDisabled_def
        MemberPayment_submit_def MemberPayment_submitDisabled_def)

theorem nonpositive_amount_is_not_submitted_witness:
  "jsLessEq (cp_amount (ad_formData (exampleAdminState 7 (Num 0)))) (Num 0) \<and>
   ad_sent (PaymentsManagement_submit Resolved (Some []) (exampleAdminState 7 (Num 0))) = [] \<and>
   jsLessEq (pf_amount (mb_formData (exampleMemberState (Some 7) (Num (- 5))))) (Num 0) \<and>
   mb_sent (MemberPayment_submit Resolved (Some []) None (exampleMemberState (Some 7) (Num (- 5)))) = []"
  using nonpositive_amount_is_not_submitted
          [of "exampleAdminState 7 (Num 0)" Resolved "Some []"
              "exampleMemberState (Some 7) (Num (- 5))" "Some []" None]
  by (simp add: exampleAdminState_def exampleMemberState_def)

text \<open>
  C4: with no member selected (member_id = 0) and an amount of 50000, activating the
  submit button of the admin form sends the create-payment request with member_id = 0:
  the select's placeholder option has the value "0", which satisfies "required", and
  neither the button's disabled condition nor handleSubmit looks at member_id.
\<close>

theorem unselected_member_reaches_the_network:
  "\<not> PaymentsManagement_submitDisabled (exampleAdminState 0 (Num 50000)) \<and>
   PaymentsManagement_formValid (exampleAdminState 0 (Num 50000)) \<and>
   ad_sent (PaymentsManagement_submit (Rejected None) None (exampleAdminState 0 (Num 50000)))
     = [CreatePayment \<lparr>cp_member_id = 0, cp_amount = Num 50000, cp_method = ''Credit Card''\<rparr>]"
  by (simp add: PaymentsManagement_submit_def PaymentsManagement_submitDisabled_def
        PaymentsManagement_formValid_def PaymentsManagement_handleSubmit_def
        exampleAdminState_def selectValueMissing_def numberInputValid_def intToString_0 Let_def)

text \<open>
  C6: selecting a plan sets the amount of the member payment form to the plan's price
  and leaves the payment method; selecting a membership type sets type, duration and fee
  of the creation form to the type's label, duration and fee and leaves the member. An
  amount typed after the selection replaces the plan's price and is the amount of the
  request the form submits; a fee typed after the selection replaces the catalog fee,
  beside the catalog's label and duration, in the request the creation form submits.
\<close>

theorem catalog_prefill_and_override:
  "mb_formData (selectPlan p mst)
     = \<lparr>pf_amount = Num (of_int (plan_price p)), pf_method = pf_method (mb_formData mst)\<rparr> \<and>
   mm_createFormData (selectMembershipType t st)
     = \<lparr>cm_member_id = cm_member_id (mm_createFormData st), cm_type = type_label t,
        cm_duration = Num (of_int (type_duration t)), cm_fee = Num (of_int (type_fee t))\<rparr> \<and>
   pf_amount (mb_formData (MemberPayment_amountChange v (selectPlan p mst))) = v \<and>
   (mb_user_member_id mst = Some member \<and> member \<noteq> 0 \<and> \<not> mb_isProcessing mst \<and>
    0 < r \<and> of_int \<lfloor>r\<rfloor> = r \<longrightarrow>
      mb_sent (MemberPayment_submit (Rejected message) fetchedPayments fetchedStatus
                 (MemberPayment_amountChange (Num r) (selectPlan p mst)))
        = mb_sent mst @
          [CreatePayment \<lparr>cp_member_id = member, cp_amount = Num r,
                          cp_method = pf_method (mb_formData mst)\<rparr>]) \<and>
   mm_sent (handleCreateSubmit (Rejected message) fetched (feeChange fee (selectMembershipType t st)))
     = mm_sent st @
       [CreateMembership \<lparr>cm_member_id = cm_member_id (mm_createFormData st),
                          cm_type = type_label t,
                          cm_duration = Num (of_int (type_duration t)), cm_fee = fee\<rparr>] \<and>
   mm_createFormData (feeChange fee (durationChange days (typeChange name (selectMembershipType t st))))
     = \<lparr>cm_member_id = cm_member_id (mm_createFormData st), cm_type = name,
        cm_duration = days, cm_fee = fee\<rparr> \<and>
   mm_sent (handleCreateSubmit Resolved fetched
              (feeChange fee (durationChange days (typeChange name (selectMembershipType t st)))))
     = mm_sent st @
       [CreateMembership \<lparr>cm_member_id = cm_member_id (mm_createFormData st), cm_type = name,
                          cm_duration = days, cm_fee = fee\<rparr>,
        GetMemberships]"
proof (intro conjI impI)
  show "mm_createFormData (feeChange fee (durationChange days (typeChange name (selectMembershipType t st))))
     = \<lparr>cm_member_id = cm_member_id (mm_createFormData st), cm_type = name,
        cm_duration = days, cm_fee = fee\<rparr>"
    by (simp add: feeChange_def durationChange_def typeChange_def selectMembershipType_def)
  show "mm_sent (handleCreateSubmit Resolved fetched
              (feeChange fee (durationChange days (typeChange name (selectMembershipType t st)))))
     = mm_sent st @
       [CreateMembership \<lparr>cm_member_id = cm_member_id (mm_createFormData st), cm_type = name,
                          cm_duration = days, cm_fee = fee\<rparr>,
        GetMemberships]"
    by (simp add: handleCreateSubmit_def feeChange_def durationChange_def typeChange_def
          selectMembershipType_def Let_def)
  show "mb_formData (selectPlan p mst)
     = \<lparr>pf_amount = Num (of_int (plan_price p)), pf_method = pf_method (mb_formData mst)\<rparr>"
    by (simp add: selectPlan_def)
  show "mm_createFormData (selectMembershipType t st)
     = \<lparr>cm_member_id = cm_member_id (mm_createFormData st), cm_type = type_label t,
        cm_duration = Num (of_int (type_duration t)), cm_fee = Num (of_int (type_fee t))\<rparr>"
    by (simp add: selectMembershipType_def)
  show "pf_amount (mb_formData (MemberPayment_amountChange v (selectPlan p mst))) = v"
    by (simp add: MemberPayment_amountChange_def selectPlan_def)
  show "mm_sent (handleCreateSubmit (Rejected message) fetched (feeChange fee (selectMembershipType t st)))
     = mm_sent st @
       [CreateMembership \<lparr>cm_member_id = cm_member_id (mm_createFormData st),
                          cm_type = type_label t,
                          cm_duration = Num (of_int (type_duration t)), cm_fee = fee\<rparr>]"
    by (simp add: handleCreateSubmit_def feeChange_def selectMembershipType_def Let_def)
next
  assume h: "mb_user_member_id mst = Some member \<and> member \<noteq> 0 \<and> \<not> mb_isProcessing mst \<and>
    0 < r \<and> of_int \<lfloor>r\<rfloor> = r"
  then show "mb_sent (MemberPayment_submit (Rejected message) fetchedPayments fetchedStatus
                 (MemberPayment_amountChange (Num r) (selectPlan p mst)))
        = mb_sent mst @
          [CreatePayment \<lparr>cp_member_id = member, cp_amount = Num r,
                          cp_method = pf_method (mb_formData mst)\<rparr>]"
    by (simp add: MemberPayment_submit_def MemberPayment_submitDisabled_def
          MemberPayment_formValid_def numberInputValid_def MemberPayment_handleSubmit_def
          MemberPayment_amountChange_def selectPlan_def Let_def)
qed

theorem catalog_prefill_and_override_witness:
  "pf_amount (mb_formData (selectPlan (membershipPlans ! 0) (exampleMemberState (Some 7) (Num 0))))
     = Num 50000 \<and>
   mb_sent (MemberPayment_submit (Rejected None) None None
              (MemberPayment_amountChange (Num 45000)
                 (selectPlan (membershipPlans ! 0) (exampleMemberState (Some 7) (Num 0)))))
     = [CreatePayment \<lparr>cp_member_id = 7, cp_amount = Num 45000, cp_method = ''Credit Card''\<rparr>]"
  using catalog_prefill_and_override
          [of "membershipPlans ! 0" "exampleMemberState (Some 7) (Num 0)" _ _ _ 7 45000 None None None]
  by (simp add: exampleMemberState_def membershipPlans_def)

text \<open>
  C9: when the create-payment request is rejected, the page's state changes only by the
  error toast and the record of the request sent: the form data, the open modal and the
  cached payment list are as before, and nothing is refetched. When it succeeds, the
  form is reset, the modal closed and the lists refetched.
\<close>

theorem rejection_commits_nothing:
  "PaymentsManagement_handleSubmit (Rejected message) fetched st
     = st\<lparr>ad_toasts := ad_toasts st @
             [ShowError (errorMessage message ''Failed to record payment'')],
          ad_sent := ad_sent st @ [CreatePayment (ad_formData st)]\<rparr> \<and>
   PaymentsManagement_handleSubmit Resolved fetched st
     = st\<lparr>ad_toasts := ad_toasts st @ [ShowSuccess ''Payment recorded successfully!''],
          ad_showCreateModal := False,
          ad_formData := initialAdminForm,
          ad_sent := ad_sent st @ [CreatePayment (ad_formData st), GetPayments],
          ad_payments := fetched\<rparr> \<and>
   mb_formData (MemberPayment_handleSubmit (Rejected message) fetchedPayments fetchedStatus mst)
     = mb_formData mst \<and>
   mb_showPaymentModal (MemberPayment_handleSubmit (Rejected message) fetchedPayments fetchedStatus mst)
     = mb_showPaymentModal mst \<and>
   mb_payments (MemberPayment_handleSubmit (Rejected message) fetchedPayments fetchedStatus mst)
     = mb_payments mst \<and>
   mb_membershipStatus (MemberPayment_handleSubmit (Rejected message) fetchedPayments fetchedStatus mst)
     = mb_membershipStatus mst \<and>
   mb_cacheCleared (MemberPayment_handleSubmit (Rejected message) fetchedPayments fetchedStatus mst)
     = mb_cacheCleared mst \<and>
   (mb_user_member_id mst = Some member \<and> member \<noteq> 0 \<longrightarrow>
      MemberPayment_handleSubmit (Rejected message) fetchedPayments fetchedStatus mst
        = mst\<lparr>mb_toasts := mb_toasts mst @ [ShowError (errorMessage message ''Payment failed'')],
              mb_sent := mb_sent mst @
                [CreatePayment \<lparr>cp_member_id = member, cp_amount = pf_amount (mb_formData mst),
                                cp_method = pf_method (mb_formData mst)\<rparr>]\<rparr> \<and>
      MemberPayment_handleSubmit Resolved fetchedPayments fetchedStatus mst
        = mst\<lparr>mb_toasts := mb_toasts mst @ [ShowSuccess ''Payment successful!''],
              mb_showPaymentModal := False,
              mb_formData := initialMemberForm,
              mb_cacheCleared := mb_cacheCleared mst @ [''/payments''],
              mb_sent := mb_sent mst @
                [CreatePayment \<lparr>cp_member_id = member, cp_amount = pf_amount (mb_formData mst),
                                cp_method = pf_method (mb_formData mst)\<rparr>,
                 GetMyPayments, GetMembershipStatus],
              mb_payments := fetchedPayments,
              mb_membershipStatus := fetchedStatus\<rparr>)"
proof -
  have admin: "PaymentsManagement_handleSubmit (Rejected message) fetched st
     = st\<lparr>ad_toasts := ad_toasts st @
             [ShowError (errorMessage message ''Failed to record payment'')],
          ad_sent := ad_sent st @ [CreatePayment (ad_formData st)]\<rparr>"
    by (simp add: PaymentsManagement_handleSubmit_def Let_def)
  have admin_ok: "PaymentsManagement_handleSubmit Resolved fetched st
     = st\<lparr>ad_toasts := ad_toasts st @ [ShowSuccess ''Payment recorded successfully!''],
          ad_showCreateModal := False,
          ad_formData := initialAdminForm,
          ad_sent := ad_sent st @ [CreatePayment (ad_formData st), GetPayments],
          ad_payments := fetched\<rparr>"
    by (simp add: PaymentsManagement_handleSubmit_def Let_def)
  have kept: "mb_formData (MemberPayment_handleSubmit (Rejected message) fetchedPayments fetchedStatus mst)
     = mb_formData mst \<and>
   mb_showPaymentModal (MemberPayment_handleSubmit (Rejected message) fetchedPayments fetchedStatus mst)
     = mb_showPaymentModal mst \<and>
   mb_payments (MemberPayment_handleSubmit (Rejected message) fetchedPayments fetchedStatus mst)
     = mb_payments mst \<and>
   mb_membershipStatus (MemberPayment_handleSubmit (Rejected message) fetchedPayments fetchedStatus mst)
     = mb_membershipStatus mst \<and>
   mb_cacheCleared (MemberPayment_handleSubmit (Rejected message) fetchedPayments fetchedStatus mst)
     = mb_cacheCleared mst"
    by (simp add: MemberPayment_handleSubmit_def Let_def split: option.split)
  have member: "mb_user_member_id mst = Some member \<and> member \<noteq> 0 \<longrightarrow>
      MemberPayment_handleSubmit (Rejected message) fetchedPayments fetchedStatus mst
        = mst\<lparr>mb_toasts := mb_toasts mst @ [ShowError (errorMessage message ''Payment failed'')],
              mb_sent := mb_sent mst @
                [CreatePayment \<lparr>cp_member_id = member, cp_amount = pf_amount (mb_formData mst),
                                cp_method = pf_method (mb_formData mst)\<rparr>]\<rparr> \<and>
      MemberPayment_handleSubmit Resolved fetchedPayments fetchedStatus mst
        = mst\<lparr>mb_toasts := mb_toasts mst @ [ShowSuccess ''Payment successful!''],
              mb_showPaymentModal := False,
              mb_formData := initialMemberForm,
              mb_cacheCleared := mb_cacheCleared mst @ [''/payments''],
              mb_sent := mb_sent mst @
                [CreatePayment \<lparr>cp_member_id = member, cp_amount = pf_amount (mb_formData mst),
                                cp_method = pf_method (mb_formData mst)\<rparr>,
                 GetMyPayments, GetMembershipStatus],
              mb_payments := fetchedPayments,
              mb_membershipStatus := fetchedStatus\<rparr>"
    by (simp add: MemberPayment_handleSubmit_def Let_def)
  from admin admin_ok kept member show ?thesis by blast
qed

theorem rejection_commits_nothing_witness:
  "MemberPayment_handleSubmit (Rejected (Some ''Card declined'')) (Some []) None
     (exampleMemberState (Some 7) (Num 50000))
     = (exampleMemberState (Some 7) (Num 50000))
         \<lparr>mb_toasts := [ShowError ''Card declined''],
          mb_sent := [CreatePayment \<lparr>cp_member_id = 7, cp_amount = Num 50000,
                                     cp_method = ''Credit Card''\<rparr>]\<rparr> \<and>
   ad_formData (PaymentsManagement_handleSubmit (Rejected None) None (exampleAdminState 7 (Num 50000)))
     = \<lparr>cp_member_id = 7, cp_amount = Num 50000, cp_method = ''Credit Card''\<rparr>"
  using rejection_commits_nothing
          [of "Some ''Card declined''" _ _ "Some []" None "exampleMemberState (Some 7) (Num 50000)" 7]
        rejection_commits_nothing [of None None "exampleAdminState 7 (Num 50000)"]
  by (simp add: exampleMemberState_def exampleAdminState_def errorMessage_def)

end
